theory Spec2Isabelle
  imports Main "HOL-Library.Word"
begin

section \<open>Go values used by package money\<close>

text \<open>
  The package works on three kinds of Go data: \<^verbatim>\<open>float64\<close> amounts, byte strings, and
  maps from strings to \<^verbatim>\<open>interface{}\<close> values (the option bag and a currency row).
  Strings are modelled as \<^typ>\<open>string\<close>, a list of bytes, which is what Go's \<^verbatim>\<open>len\<close> and
  slice expressions count.
\<close>

subsection \<open>float64\<close>

text \<open>
  An IEEE 754 binary64 value. \<open>Finite s m e\<close> stands for \<open>(-1)^s * m * 2^e\<close>; the sign
  is kept for zero as well, since Go prints negative zero with a minus sign.
  Every real binary64 value satisfies \<open>is_float64\<close>; the functions below are defined on
  all of the datatype and never use more than the value denoted.
\<close>

datatype float64 = Finite bool nat int | Infinity bool | NaN

fun is_float64 :: "float64 \<Rightarrow> bool" where
  "is_float64 (Finite s m e) = (m < 2 ^ 53 \<and> - 1074 \<le> e \<and> e \<le> 971)"
| "is_float64 (Infinity s) = True"
| "is_float64 NaN = True"

fun isFinite :: "float64 \<Rightarrow> bool" where
  "isFinite (Finite s m e) = True"
| "isFinite (Infinity s) = False"
| "isFinite NaN = False"

text \<open>Go's comparison \<^verbatim>\<open>x >= 0\<close>: true of both zeros, false of NaN.\<close>

fun geZero :: "float64 \<Rightarrow> bool" where
  "geZero (Finite s m e) = (\<not> s \<or> m = 0)"
| "geZero (Infinity s) = (\<not> s)"
| "geZero NaN = False"

text \<open>Go's comparison \<^verbatim>\<open>x < 0\<close>.\<close>

fun ltZero :: "float64 \<Rightarrow> bool" where
  "ltZero (Finite s m e) = (s \<and> 0 < m)"
| "ltZero (Infinity s) = s"
| "ltZero NaN = False"

text \<open>\<^verbatim>\<open>math.Signbit\<close>.\<close>

fun Signbit :: "float64 \<Rightarrow> bool" where
  "Signbit (Finite s m e) = s"
| "Signbit (Infinity s) = s"
| "Signbit NaN = False"

text \<open>Whether the value is a whole number (\<^verbatim>\<open>x == math.Trunc(x)\<close>).\<close>

fun isIntegral :: "float64 \<Rightarrow> bool" where
  "isIntegral (Finite s m e) = (0 \<le> e \<or> m mod 2 ^ nat (- e) = 0)"
| "isIntegral (Infinity s) = False"
| "isIntegral NaN = False"

text \<open>
  \<^verbatim>\<open>math.Float64frombits\<close>: the value of a 64-bit pattern (sign, 11 exponent bits,
  52 fraction bits). It ties the concrete inputs used below to the bit patterns Go
  stores for the corresponding literals.
\<close>

definition Float64frombits :: "64 word \<Rightarrow> float64" where
  "Float64frombits b =
     (let n = unat b;
          s = (2 ^ 63 \<le> n);
          ex = (n div 2 ^ 52) mod 2 ^ 11;
          fr = n mod 2 ^ 52
      in if ex = 2047 then (if fr = 0 then Infinity s else NaN)
         else if ex = 0 then Finite s fr (- 1074)
         else Finite s (2 ^ 52 + fr) (int ex - 1075))"

text \<open>
  \<^verbatim>\<open>math.Modf\<close>: "returns integer and fractional floating-point numbers that sum to f.
  Both values have the same sign as f." Special cases: \<^verbatim>\<open>Modf(\<plusminus>Inf) = \<plusminus>Inf, NaN\<close> and
  \<^verbatim>\<open>Modf(NaN) = NaN, NaN\<close>. Both results are exact.
\<close>

fun Modf :: "float64 \<Rightarrow> float64 \<times> float64" where
  "Modf (Finite s m e) =
     (if 0 \<le> e then (Finite s m e, Finite s 0 0)
      else (Finite s (m div 2 ^ nat (- e)) 0, Finite s (m mod 2 ^ nat (- e)) e))"
| "Modf (Infinity s) = (Infinity s, NaN)"
| "Modf NaN = (NaN, NaN)"

subsection \<open>Formatting with the verb %.Nf\<close>

definition digit :: "nat \<Rightarrow> char" where
  "digit n = char_of (48 + n)"

fun digits :: "nat \<Rightarrow> string" where
  "digits n = (if n < 10 then [digit n] else digits (n div 10) @ [digit (n mod 10)])"

declare digits.simps [simp del]

definition isDigit :: "char \<Rightarrow> bool" where
  "isDigit c = (48 \<le> (of_char c :: nat) \<and> (of_char c :: nat) \<le> 57)"

text \<open>The integer nearest to \<open>n / d\<close>, a tie going to the even neighbour.\<close>

definition roundHalfEven :: "nat \<Rightarrow> nat \<Rightarrow> nat" where
  "roundHalfEven n d =
     (let q = n div d; r = n mod d
      in if 2 * r < d then q
         else if d < 2 * r then q + 1
         else if even q then q else q + 1)"

text \<open>\<open>m * 2^e * 10^prec\<close> rounded to an integer, as \<^verbatim>\<open>strconv\<close> rounds the exact
  decimal expansion of the value.\<close>

definition scaled :: "nat \<Rightarrow> int \<Rightarrow> nat \<Rightarrow> nat" where
  "scaled m e prec =
     (if 0 \<le> e then m * 2 ^ nat e * 10 ^ prec
      else roundHalfEven (m * 10 ^ prec) (2 ^ nat (- e)))"

text \<open>
  \<^verbatim>\<open>fmt.Sprintf("%.<prec>f", x)\<close>: an optional minus sign (also for negative zero and
  for negative values that round to zero), the integer digits, and, when \<open>prec > 0\<close>, a
  point and exactly \<open>prec\<close> digits. Infinities print as \<^verbatim>\<open>+Inf\<close> and \<^verbatim>\<open>-Inf\<close>.
\<close>

fun Sprintf_f :: "nat \<Rightarrow> float64 \<Rightarrow> string" where
  "Sprintf_f prec (Finite s m e) =
     (let n = scaled m e prec;
          ip = digits (n div 10 ^ prec);
          fp = digits (n mod 10 ^ prec)
      in (if s then ''-'' else '''') @ ip @
         (if prec = 0 then '''' else ''.'' @ replicate (prec - length fp) (CHR ''0'') @ fp))"
| "Sprintf_f prec (Infinity s) = (if s then ''-Inf'' else ''+Inf'')"
| "Sprintf_f prec NaN = ''NaN''"

subsection \<open>Interface values, maps and panics\<close>

text \<open>
  The values an \<^verbatim>\<open>interface{}\<close> holds in this package: strings, booleans and nil
  (a null subunit, or the result of looking up a missing key).
\<close>

datatype iface = Nil | Str string | Bool bool

datatype panic = TypeAssertion | SliceBounds

type_synonym gomap = "string \<rightharpoonup> iface"

type_synonym Options = "string \<rightharpoonup> iface"

text \<open>\<^verbatim>\<open>m[k]\<close>: a missing key yields the zero value, nil.\<close>

definition index :: "gomap \<Rightarrow> string \<Rightarrow> iface" where
  "index m k = (case m k of None \<Rightarrow> Nil | Some v \<Rightarrow> v)"

text \<open>The single-value type assertions \<^verbatim>\<open>v.(string)\<close> and \<^verbatim>\<open>v.(bool)\<close>.\<close>

fun assertString :: "iface \<Rightarrow> panic + string" where
  "assertString (Str s) = Inr s"
| "assertString v = Inl TypeAssertion"

fun assertBool :: "iface \<Rightarrow> panic + bool" where
  "assertBool (Bool b) = Inr b"
| "assertBool v = Inl TypeAssertion"

text \<open>The verb \<^verbatim>\<open>%s\<close> applied to an interface value.\<close>

fun fmt_s :: "iface \<Rightarrow> string" where
  "fmt_s (Str s) = s"
| "fmt_s Nil = ''%!s(<nil>)''"
| "fmt_s (Bool b) = (if b then ''%!s(bool=true)'' else ''%!s(bool=false)'')"

text \<open>Sequencing of computations that may panic.\<close>

definition seq :: "panic + 'a \<Rightarrow> ('a \<Rightarrow> panic + 'b) \<Rightarrow> panic + 'b" where
  "seq r f = (case r of Inl e \<Rightarrow> Inl e | Inr v \<Rightarrow> f v)"

text \<open>The slice expressions \<^verbatim>\<open>s[a:b]\<close> and \<^verbatim>\<open>s[a:]\<close> on a string.\<close>

definition slice :: "string \<Rightarrow> nat \<Rightarrow> nat \<Rightarrow> panic + string" where
  "slice s a b = (if a \<le> b \<and> b \<le> length s then Inr (take (b - a) (drop a s)) else Inl SliceBounds)"

definition sliceFrom :: "string \<Rightarrow> nat \<Rightarrow> panic + string" where
  "sliceFrom s a = (if a \<le> length s then Inr (drop a s) else Inl SliceBounds)"

text \<open>\<^verbatim>\<open>strings.Join\<close>.\<close>

fun Join :: "string list \<Rightarrow> string \<Rightarrow> string" where
  "Join [] sep = []"
| "Join [x] sep = x"
| "Join (x # y # ys) sep = x @ sep @ Join (y # ys) sep"

section \<open>money.go\<close>

subsection \<open>splitValue\<close>

definition splitValue :: "float64 \<Rightarrow> panic + string \<times> string" where
  "splitValue val =
     (let (i, f) = Modf val;
          integer = Sprintf_f 0 i
      in seq (sliceFrom (Sprintf_f 2 f) 2) (\<lambda>fractional. Inr (integer, fractional)))"

subsection \<open>separateThousands\<close>

text \<open>
  The loop \<^verbatim>\<open>for i := 0; i < len(r); i++\<close> filling the slice \<open>r\<close>, which
  \<^verbatim>\<open>make([]string, s)\<close> creates with \<open>s\<close> empty strings. Both slice expressions start
  at the loop index \<open>i\<close>, as in the source. Lengths and indices are Go \<^verbatim>\<open>int\<close>s far
  below \<open>2^53\<close>, so they are natural numbers here and
  \<^verbatim>\<open>int(math.Mod(float64(len(value)), 3))\<close> is \<open>length value mod 3\<close>.
\<close>

function fill :: "string \<Rightarrow> nat \<Rightarrow> nat \<Rightarrow> string list \<Rightarrow> panic + string list" where
  "fill value m i r =
     (if i < length r then
        seq (if i = 0 \<and> 0 < m then slice value i (i + m) else slice value i (i + 3))
            (\<lambda>g. fill value m (i + 1) (r[i := g]))
      else Inr r)"
  by pat_completeness auto
termination
  by (relation "measure (\<lambda>(value, m, i, r). length r - i)") auto

declare fill.simps [simp del]

definition separateThousands :: "string \<Rightarrow> string \<Rightarrow> panic + string" where
  "separateThousands value separator =
     (let s = length value div 3;
          m = length value mod 3;
          s = (if 0 < m then s + 1 else s)
      in if s = 0 then Inr value
         else seq (fill value m 0 (replicate s [])) (\<lambda>r. Inr (Join r separator)))"

subsection \<open>addSymbol\<close>

definition addSymbol :: "string \<Rightarrow> gomap \<Rightarrow> Options \<Rightarrow> panic + string" where
  "addSymbol result currency options =
     seq (assertBool (index options ''with_symbol_space'')) (\<lambda>wss.
       let space = (if wss then '' '' else '''')
       in seq (assertBool (index currency ''symbol_first'')) (\<lambda>sf.
            if sf then Inr (fmt_s (index currency ''symbol'') @ space @ result)
            else Inr (result @ space @ fmt_s (index currency ''symbol''))))"

subsection \<open>Options and the currency table\<close>

text \<open>
  Modelled from the spec: the function \<^verbatim>\<open>defaults\<close> is not part of money.go. The
  package comment of money.go and the data model of the specification list the default
  of every option.
\<close>

definition defaults :: Options where
  "defaults =
     [''currency'' \<mapsto> Str ''usd'',
      ''with_cents'' \<mapsto> Bool True,
      ''with_currency'' \<mapsto> Bool False,
      ''with_symbol'' \<mapsto> Bool True,
      ''with_symbol_space'' \<mapsto> Bool False,
      ''with_thousands_separator'' \<mapsto> Bool True]"

text \<open>
  Modelled from the spec: the function \<^verbatim>\<open>override\<close> is not part of money.go.
  "Caller-supplied options override defaults key-by-key; unspecified keys retain
  defaults."
\<close>

definition override :: "Options \<Rightarrow> Options \<Rightarrow> Options" where
  "override options supplied = options ++ supplied"

text \<open>
  \<^verbatim>\<open>currencies[code]\<close>: the table is a parameter of the model, since it is not part of
  money.go. An unknown code yields the nil map, whose every key reads as nil.
\<close>

definition lookupCurrency :: "(string \<rightharpoonup> gomap) \<Rightarrow> string \<Rightarrow> gomap" where
  "lookupCurrency currencies code = (case currencies code of None \<Rightarrow> Map.empty | Some c \<Rightarrow> c)"

text \<open>
  Modelled from the spec: the rows of the currency table are not part of money.go. The
  two rows below are the ones the documented results determine: \<^verbatim>\<open>"$1,000.00"\<close>,
  \<^verbatim>\<open>"$10.00 USD"\<close> and the euro sign before \<^verbatim>\<open>10.00\<close> fix the symbol, its side,
  the decimal mark, the separator of usd and its ISO code. The separator and the ISO
  code of eur are not determined by the specification; no result below shows them.
  The euro sign is the three bytes of its UTF-8 encoding.
\<close>

definition usd :: gomap where
  "usd =
     [''iso_code'' \<mapsto> Str ''USD'',
      ''symbol'' \<mapsto> Str ''$'',
      ''subunit'' \<mapsto> Str ''Cent'',
      ''symbol_first'' \<mapsto> Bool True,
      ''thousands_separator'' \<mapsto> Str '','',
      ''decimal_mark'' \<mapsto> Str ''.'']"

definition euroSign :: string where
  "euroSign = [CHR 0xE2, CHR 0x82, CHR 0xAC]"

definition eur :: gomap where
  "eur =
     [''iso_code'' \<mapsto> Str ''EUR'',
      ''symbol'' \<mapsto> Str euroSign,
      ''subunit'' \<mapsto> Str ''Cent'',
      ''symbol_first'' \<mapsto> Bool True,
      ''thousands_separator'' \<mapsto> Str '','',
      ''decimal_mark'' \<mapsto> Str ''.'']"

definition currencies :: "string \<rightharpoonup> gomap" where
  "currencies = [''usd'' \<mapsto> usd, ''eur'' \<mapsto> eur]"

subsection \<open>New\<close>

definition New :: "(string \<rightharpoonup> gomap) \<Rightarrow> float64 \<Rightarrow> Options list \<Rightarrow> panic + string" where
  "New table val opts =
     (let options = defaults;
          options = (if 0 < length opts then override options (opts ! 0) else options)
      in seq (assertString (index options ''currency'')) (\<lambda>code.
         let currency = lookupCurrency table code
         in seq (splitValue val) (\<lambda>(integer, fractional).
            seq (assertBool (index options ''with_thousands_separator'')) (\<lambda>wts.
            seq (if wts
                 then seq (assertString (index currency ''thousands_separator''))
                          (\<lambda>sep. separateThousands integer sep)
                 else Inr integer) (\<lambda>result.
            seq (assertBool (index options ''with_cents'')) (\<lambda>wc.
            seq (if wc \<and> index currency ''subunit'' \<noteq> Nil
                 then seq (assertString (index currency ''decimal_mark''))
                          (\<lambda>dm. Inr (result @ dm @ fractional))
                 else Inr result) (\<lambda>result.
            seq (assertBool (index options ''with_symbol'')) (\<lambda>ws.
            seq (if ws then addSymbol result currency options else Inr result) (\<lambda>result.
            seq (assertBool (index options ''with_currency'')) (\<lambda>wcur.
            if wcur then Inr (result @ '' '' @ fmt_s (index currency ''iso_code''))
            else Inr result))))))))))"

text \<open>
  The option bag \<open>New\<close> works with: the first two statements of its body, named so that
  properties can refer to the value of an option whether it was supplied or defaulted.
\<close>

definition effective :: "Options list \<Rightarrow> Options" where
  "effective opts = (if 0 < length opts then override defaults (opts ! 0) else defaults)"

section \<open>Notions used to state the properties\<close>

text \<open>
  A supplied option bag is valid when every recognised key it holds has a value of the
  type \<open>New\<close> asserts: a boolean for the five switches, a string for the currency code.
\<close>

definition boolKeys :: "string list" where
  "boolKeys = [''with_cents'', ''with_currency'', ''with_symbol'', ''with_symbol_space'',
     ''with_thousands_separator'']"

fun isBool :: "iface \<Rightarrow> bool" where
  "isBool (Bool b) = True"
| "isBool v = False"

fun isStr :: "iface \<Rightarrow> bool" where
  "isStr (Str s) = True"
| "isStr v = False"

definition validOptions :: "Options \<Rightarrow> bool" where
  "validOptions supplied =
     (list_all (\<lambda>k. case supplied k of None \<Rightarrow> True | Some v \<Rightarrow> isBool v) boolKeys \<and>
      (case supplied ''currency'' of None \<Rightarrow> True | Some v \<Rightarrow> isStr v))"

text \<open>
  A row of the currency table is well formed when the fields \<open>New\<close> asserts have the
  types of the data model: string separator and decimal mark, boolean symbol side.
\<close>

definition wfCurrency :: "gomap \<Rightarrow> bool" where
  "wfCurrency c =
     (isStr (index c ''thousands_separator'') \<and> isStr (index c ''decimal_mark'') \<and>
      isBool (index c ''symbol_first''))"

text \<open>
  Grouping as the specification words it: the remainder group of \<open>length mod 3\<close> digits
  first, if it is not empty, then each following group of three digits, joined by the
  separator.
\<close>

fun groupsOfThree :: "string \<Rightarrow> string list" where
  "groupsOfThree (a # b # c # rest) = [a, b, c] # groupsOfThree rest"
| "groupsOfThree rest = []"

definition groupThousands_spec :: "string \<Rightarrow> string \<Rightarrow> string" where
  "groupThousands_spec value separator =
     (let m = length value mod 3
      in Join ((if 0 < m then [take m value] else []) @ groupsOfThree (drop m value)) separator)"

text \<open>Removing every occurrence of a one-byte separator from a string.\<close>

definition stripSeparator :: "string \<Rightarrow> char \<Rightarrow> string" where
  "stripSeparator s c = filter (\<lambda>x. x \<noteq> c) s"

text \<open>
  The inputs the documented examples use, given by the bit patterns Go stores for the
  literals \<open>10\<close>, \<open>1000\<close>, \<open>0.999\<close>, \<open>-0.999\<close>, \<open>-1.5\<close>, for negative zero and
  for the largest finite value (\<^verbatim>\<open>math.MaxFloat64\<close>).
  \<open>0.999\<close> is not a binary fraction; the literal denotes the nearest binary64 value,
  \<open>8998192055486251 * 2^-53\<close>.
\<close>

definition f10 :: float64 where
  "f10 = Float64frombits 0x4024000000000000"

definition f1000 :: float64 where
  "f1000 = Float64frombits 0x408F400000000000"

definition f0_999 :: float64 where
  "f0_999 = Float64frombits 0x3FEFF7CED916872B"

definition fNeg0_999 :: float64 where
  "fNeg0_999 = Float64frombits 0xBFEFF7CED916872B"

definition fNeg1_5 :: float64 where
  "fNeg1_5 = Float64frombits 0xBFF8000000000000"

definition negZero :: float64 where
  "negZero = Float64frombits 0x8000000000000000"

definition fMax :: float64 where
  "fMax = Float64frombits 0x7FEFFFFFFFFFFFFF"

text \<open>
  An example of a row with a null subunit, the shape the data model gives a zero-decimal
  currency; the yen sign is the two bytes of its UTF-8 encoding. The row is not taken
  from the currency table, which is not part of money.go; it is passed to \<open>New\<close> as a
  table of its own.
\<close>

definition jpy :: gomap where
  "jpy =
     [''iso_code'' \<mapsto> Str ''JPY'',
      ''symbol'' \<mapsto> Str [CHR 0xC2, CHR 0xA5],
      ''subunit'' \<mapsto> Nil,
      ''symbol_first'' \<mapsto> Bool True,
      ''thousands_separator'' \<mapsto> Str '','',
      ''decimal_mark'' \<mapsto> Str ''.'']"

text \<open>
  A second example row with a null subunit: its symbol ends with a point, and the point
  is also its decimal mark. Like the yen row it is passed to \<open>New\<close> as a table of its own.
\<close>

definition franc :: gomap where
  "franc =
     [''iso_code'' \<mapsto> Str ''XXF'',
      ''symbol'' \<mapsto> Str ''Fr.'',
      ''subunit'' \<mapsto> Nil,
      ''symbol_first'' \<mapsto> Bool True,
      ''thousands_separator'' \<mapsto> Str '','',
      ''decimal_mark'' \<mapsto> Str ''.'']"

text \<open>\<^verbatim>\<open>strings.HasPrefix\<close> and \<^verbatim>\<open>strings.Contains\<close>, to say that a string shows a mark.\<close>

fun HasPrefix :: "string \<Rightarrow> string \<Rightarrow> bool" where
  "HasPrefix s [] = True"
| "HasPrefix [] (p # ps) = False"
| "HasPrefix (c # cs) (p # ps) = (c = p \<and> HasPrefix cs ps)"

fun Contains :: "string \<Rightarrow> string \<Rightarrow> bool" where
  "Contains [] substr = HasPrefix [] substr"
| "Contains (c # cs) substr = (HasPrefix (c # cs) substr \<or> Contains cs substr)"

declare Sprintf_f.simps(1) [simp del]

section \<open>Basic facts\<close>

lemma seq_Inl [simp]: "seq (Inl e) f = Inl e"
  by (simp add: seq_def)

lemma seq_Inr [simp]: "seq (Inr v) f = f v"
  by (simp add: seq_def)

subsection \<open>Bit patterns\<close>

lemma is_float64_frombits: "is_float64 (Float64frombits b)"
proof -
  have "unat b mod 2 ^ 52 < (2::nat) ^ 52" by simp
  moreover have "(unat b div 2 ^ 52) mod 2 ^ 11 < (2::nat) ^ 11" by simp
  ultimately show ?thesis
    by (auto simp: Float64frombits_def Let_def)
qed

lemma f10_eq: "f10 = Finite False 5629499534213120 (- 49)"
  by (simp add: f10_def Float64frombits_def Let_def)

lemma f1000_eq: "f1000 = Finite False 8796093022208000 (- 43)"
  by (simp add: f1000_def Float64frombits_def Let_def)

lemma f0_999_eq: "f0_999 = Finite False 8998192055486251 (- 53)"
  by (simp add: f0_999_def Float64frombits_def Let_def)

lemma fNeg0_999_eq: "fNeg0_999 = Finite True 8998192055486251 (- 53)"
  by (simp add: fNeg0_999_def Float64frombits_def Let_def)

lemma fNeg1_5_eq: "fNeg1_5 = Finite True 6755399441055744 (- 52)"
  by (simp add: fNeg1_5_def Float64frombits_def Let_def)

lemma negZero_eq: "negZero = Finite True 0 (- 1074)"
  by (simp add: negZero_def Float64frombits_def Let_def)

text \<open>
  The value stored for \<open>0.999\<close> lies within half a unit in the last place of \<open>999/1000\<close>:
  \<open>|m * 2^-53 - 999/1000| \<le> 2^-54\<close>, with \<open>m\<close> a 53-bit mantissa.
\<close>

lemma f0_999_nearest:
  "2 * \<bar>1000 * 8998192055486251 - 999 * (2::int) ^ 53\<bar> \<le> 1000 \<and>
   (2::int) ^ 52 \<le> 8998192055486251 \<and> 8998192055486251 < (2::int) ^ 53"
  by simp

subsection \<open>Decimal digits\<close>

lemma digit_simps:
  "digit 0 = CHR ''0''" "digit 1 = CHR ''1''" "digit 2 = CHR ''2''" "digit 3 = CHR ''3''"
  "digit 4 = CHR ''4''" "digit 5 = CHR ''5''" "digit 6 = CHR ''6''" "digit 7 = CHR ''7''"
  "digit 8 = CHR ''8''" "digit 9 = CHR ''9''" "digit (Suc 0) = CHR ''1''"
  by code_simp+

lemma digits_lt10: "n < 10 \<Longrightarrow> digits n = [digit n]"
  by (subst digits.simps) simp

lemma digits_ge10: "10 \<le> n \<Longrightarrow> digits n = digits (n div 10) @ [digit (n mod 10)]"
  by (subst digits.simps) simp

lemma isDigit_digit: "n < 10 \<Longrightarrow> isDigit (digit n)"
  by (simp add: isDigit_def digit_def)

lemma pad2:
  "n < 100 \<Longrightarrow>
   replicate (2 - length (digits n)) (CHR ''0'') @ digits n = [digit (n div 10), digit (n mod 10)]"
proof (cases "n < 10")
  case True
  then show ?thesis by (simp add: digits_lt10 digit_simps)
next
  case False
  assume "n < 100"
  with False have "n div 10 < 10" by simp
  with False show ?thesis by (simp add: digits_ge10 digits_lt10)
qed

subsection \<open>The shape of what splitValue returns\<close>

lemma roundHalfEven_le: "n < c * d \<Longrightarrow> roundHalfEven n d \<le> c"
proof -
  assume "n < c * d"
  then have "n div d < c"
    by (metis less_mult_imp_div_less)
  then show ?thesis by (simp add: roundHalfEven_def Let_def)
qed

lemma Sprintf_f_0:
  "Sprintf_f 0 (Finite s m e) = (if s then ''-'' else []) @ digits (scaled m e 0)"
  by (simp add: Sprintf_f.simps(1) Let_def)

lemma Sprintf_f_2:
  assumes "scaled m e 2 \<le> 100"
  shows "\<exists>d a b. d \<le> 1 \<and> a < 10 \<and> b < 10 \<and>
           Sprintf_f 2 (Finite s m e) =
             (if s then ''-'' else []) @ [digit d, CHR ''.'', digit a, digit b]"
proof -
  define n where "n = scaled m e 2"
  have "n \<le> 100" using assms by (simp add: n_def)
  then have d: "n div 100 \<le> 1" by simp
  have r: "n mod 100 < 100" by simp
  have "Sprintf_f 2 (Finite s m e) =
          (if s then ''-'' else []) @
          [digit (n div 100), CHR ''.'', digit (n mod 100 div 10), digit (n mod 100 mod 10)]"
    using d by (simp add: Sprintf_f.simps(1) Let_def n_def[symmetric] digits_lt10 pad2[OF r])
  moreover have "n mod 100 div 10 < 10" "n mod 100 mod 10 < 10" by simp_all
  ultimately show ?thesis using d by blast
qed

lemma frac_scaled:
  "Modf (Finite s m e) = (i, f) \<Longrightarrow> \<exists>m' e'. f = Finite s m' e' \<and> scaled m' e' 2 \<le> 100"
proof (cases "0 \<le> e")
  case True
  assume "Modf (Finite s m e) = (i, f)"
  with True have "f = Finite s 0 0" by simp
  then show ?thesis by (simp add: scaled_def)
next
  case False
  assume "Modf (Finite s m e) = (i, f)"
  with False have f: "f = Finite s (m mod 2 ^ nat (- e)) e" by simp
  have "m mod 2 ^ nat (- e) * 10 ^ 2 < 100 * 2 ^ nat (- e)" by simp
  then have "roundHalfEven (m mod 2 ^ nat (- e) * 10 ^ 2) (2 ^ nat (- e)) \<le> 100"
    by (rule roundHalfEven_le)
  with False f show ?thesis by (simp add: scaled_def)
qed

lemma int_part:
  "Modf (Finite s m e) = (i, f) \<Longrightarrow>
   \<exists>ip. Sprintf_f 0 i = (if s then ''-'' else []) @ digits ip"
  by (cases "0 \<le> e") (auto simp: Sprintf_f_0)

lemma splitValue_shape:
  "\<exists>ip d a b. d \<le> 1 \<and> a < 10 \<and> b < 10 \<and>
     Sprintf_f 2 (snd (Modf (Finite s m e))) =
       (if s then ''-'' else []) @ [digit d, CHR ''.'', digit a, digit b] \<and>
     splitValue (Finite s m e) =
       Inr ((if s then ''-'' else []) @ digits ip,
            (if s then ''.'' else []) @ [digit a, digit b])"
proof -
  obtain i f where M: "Modf (Finite s m e) = (i, f)"
    by (cases "Modf (Finite s m e)")
  from frac_scaled[OF M] obtain m' e' where
    f: "f = Finite s m' e'" and le: "scaled m' e' 2 \<le> 100"
    by blast
  from Sprintf_f_2[OF le, of s] obtain d a b where
    dab: "d \<le> 1" "a < 10" "b < 10" and
    F: "Sprintf_f 2 (Finite s m' e') =
          (if s then ''-'' else []) @ [digit d, CHR ''.'', digit a, digit b]"
    by blast
  from int_part[OF M] obtain ip where
    I: "Sprintf_f 0 i = (if s then ''-'' else []) @ digits ip"
    by blast
  have "splitValue (Finite s m e) =
       Inr ((if s then ''-'' else []) @ digits ip,
            (if s then ''.'' else []) @ [digit a, digit b])"
    unfolding splitValue_def M by (simp add: f F I sliceFrom_def)
  with dab F f M show ?thesis by (metis snd_conv)
qed

subsection \<open>The loop of separateThousands\<close>

lemma fill_done: "\<not> i < length r \<Longrightarrow> fill value m i r = Inr r"
  by (subst fill.simps) simp

lemma fill_step:
  "i < length r \<Longrightarrow>
   fill value m i r =
     seq (if i = 0 \<and> 0 < m then slice value i (i + m) else slice value i (i + 3))
         (\<lambda>g. fill value m (Suc i) (r[i := g]))"
  by (subst fill.simps) simp

text \<open>
  No slice expression of the loop is out of range: the slice \<open>r\<close> has one entry per
  group, so the largest index is far enough from the end of the string.
\<close>

lemma fill_total:
  "m \<le> length value \<Longrightarrow>
   length r + 2 \<le> length value \<or> (length r \<le> 1 \<and> 0 < m) \<Longrightarrow>
   \<exists>r'. fill value m i r = Inr r' \<and> length r' = length r"
proof (induction "value" m i r rule: fill.induct)
  case (1 "value" m i r)
  show ?case
  proof (cases "i < length r")
    case False
    then show ?thesis by (simp add: fill_done)
  next
    case True
    define g where
      "g = (if i = 0 \<and> 0 < m then take m (drop i value) else take 3 (drop i value))"
    have S: "(if i = 0 \<and> 0 < m then slice value i (i + m) else slice value i (i + 3)) = Inr g"
      using True "1.prems" by (auto simp: slice_def g_def)
    have "\<exists>r'. fill value m (i + 1) (r[i := g]) = Inr r' \<and> length r' = length (r[i := g])"
      using "1.IH"[OF True] "1.prems" by simp
    then show ?thesis
      using True S by (simp add: fill_step)
  qed
qed

lemma separateThousands_total: "\<exists>r. separateThousands value separator = Inr r"
proof -
  define m where "m = length value mod 3"
  define s where "s = (if 0 < m then length value div 3 + 1 else length value div 3)"
  have m: "m \<le> length value"
    unfolding m_def by (rule mod_less_eq_dividend)
  have "length (replicate s ([]::string)) + 2 \<le> length value \<or>
        (length (replicate s ([]::string)) \<le> 1 \<and> 0 < m) \<or> s = 0"
    unfolding s_def m_def by (simp; presburger)
  then consider "s = 0"
    | "length (replicate s ([]::string)) + 2 \<le> length value \<or>
       (length (replicate s ([]::string)) \<le> 1 \<and> 0 < m)"
    by blast
  then show ?thesis
  proof cases
    case 1
    then show ?thesis by (simp add: separateThousands_def Let_def s_def m_def)
  next
    case 2
    from fill_total[OF m 2, of 0] obtain r' where "fill value m 0 (replicate s []) = Inr r'"
      by blast
    then show ?thesis
      by (simp add: separateThousands_def Let_def s_def[symmetric] m_def[symmetric])
  qed
qed

lemma replicate_small: "replicate 2 x = [x, x]" "replicate 3 x = [x, x, x]"
  by (simp_all add: numeral_2_eq_2 numeral_3_eq_3)

lemmas sep_ev = separateThousands_def slice_def fill_done fill_step Let_def replicate_small

lemma sep_examples:
  "separateThousands ''1000'' '','' = Inr ''1,000''"
  "separateThousands ''12'' '','' = Inr ''12''"
  "separateThousands ''1234567'' '','' = Inr ''1,234,345''"
  "separateThousands ''123456'' '','' = Inr ''123,234''"
  "separateThousands ''10'' '','' = Inr ''10''"
  "separateThousands ''0'' '','' = Inr ''0''"
  "separateThousands ''-1'' '','' = Inr ''-1''"
  "separateThousands ''-0'' '','' = Inr ''-0''"
  by (simp_all add: sep_ev)

lemma spec_examples:
  "groupThousands_spec ''1234567'' '','' = ''1,234,567''"
  "groupThousands_spec ''123456'' '','' = ''123,456''"
  "groupThousands_spec ''1000'' '','' = ''1,000''"
  "groupThousands_spec ''12'' '','' = ''12''"
  "stripSeparator ''123,456'' (CHR '','') = ''123456''"
  by (simp_all add: groupThousands_spec_def stripSeparator_def Let_def)

text \<open>Up to four bytes the overlap of the groups does not show.\<close>

lemma short_list:
  "length xs \<le> 4 \<Longrightarrow>
   xs = [] \<or> (\<exists>a. xs = [a]) \<or> (\<exists>a b. xs = [a, b]) \<or> (\<exists>a b c. xs = [a, b, c]) \<or>
   (\<exists>a b c d. xs = [a, b, c, d])"
  by (cases xs; cases "tl xs"; cases "tl (tl xs)"; cases "tl (tl (tl xs))";
      cases "tl (tl (tl (tl xs)))") auto

lemma sep_small:
  "separateThousands [] sep = Inr []"
  "separateThousands [a] sep = Inr [a]"
  "separateThousands [a, b] sep = Inr [a, b]"
  "separateThousands [a, b, c] sep = Inr [a, b, c]"
  "separateThousands [a, b, c, d] sep = Inr ([a] @ sep @ [b, c, d])"
  by (simp_all add: sep_ev)

lemma spec_small:
  "groupThousands_spec [] sep = []"
  "groupThousands_spec [a] sep = [a]"
  "groupThousands_spec [a, b] sep = [a, b]"
  "groupThousands_spec [a, b, c] sep = [a, b, c]"
  "groupThousands_spec [a, b, c, d] sep = [a] @ sep @ [b, c, d]"
  by (simp_all add: groupThousands_spec_def Let_def)

lemma separateThousands_upto4:
  "length value \<le> 4 \<Longrightarrow> separateThousands value separator = Inr (groupThousands_spec value separator)"
  using short_list[of "value"] by (auto simp: sep_small spec_small)

text \<open>What the loop computes in general: group \<open>i\<close> is cut at byte offset \<open>i\<close>.\<close>

lemma fill_closed:
  "m \<le> length value \<Longrightarrow>
   length r + 2 \<le> length value \<or> (length r \<le> 1 \<and> 0 < m) \<Longrightarrow>
   fill value m i r =
     Inr (take i r @
          map (\<lambda>j. if j = 0 \<and> 0 < m then take m value else take 3 (drop j value))
              [i..<length r])"
proof (induction "value" m i r rule: fill.induct)
  case (1 "value" m i r)
  let ?f = "\<lambda>j. if j = 0 \<and> 0 < m then take m value else take 3 (drop j value)"
  show ?case
  proof (cases "i < length r")
    case False
    then show ?thesis by (simp add: fill_done)
  next
    case True
    have S: "(if i = 0 \<and> 0 < m then slice value i (i + m) else slice value i (i + 3)) = Inr (?f i)"
      using True "1.prems" by (auto simp: slice_def)
    have "fill value m (i + 1) (r[i := ?f i]) =
            Inr (take (i + 1) (r[i := ?f i]) @ map ?f [i + 1..<length (r[i := ?f i])])"
      using "1.IH"[OF True, of "?f i"] "1.prems" by simp
    also have "take (i + 1) (r[i := ?f i]) = take i r @ [?f i]"
      using True by (simp add: take_Suc_conv_app_nth)
    finally have "fill value m (Suc i) (r[i := ?f i]) =
            Inr (take i r @ map ?f [i..<length r])"
      using True by (simp add: upt_conv_Cons)
    then show ?thesis
      using True S by (simp add: fill_step)
  qed
qed

lemma separateThousands_closed:
  "separateThousands value separator =
     Inr (let m = length value mod 3;
              s = (if 0 < m then length value div 3 + 1 else length value div 3)
          in if s = 0 then value
             else Join (map (\<lambda>j. if j = 0 \<and> 0 < m then take m value else take 3 (drop j value))
                            [0..<s]) separator)"
proof -
  define m where "m = length value mod 3"
  define s where "s = (if 0 < m then length value div 3 + 1 else length value div 3)"
  have m: "m \<le> length value"
    unfolding m_def by (rule mod_less_eq_dividend)
  have "length (replicate s ([]::string)) + 2 \<le> length value \<or>
        (length (replicate s ([]::string)) \<le> 1 \<and> 0 < m) \<or> s = 0"
    unfolding s_def m_def by (simp; presburger)
  then consider "s = 0"
    | "s \<noteq> 0" "length (replicate s ([]::string)) + 2 \<le> length value \<or>
       (length (replicate s ([]::string)) \<le> 1 \<and> 0 < m)"
    by blast
  then show ?thesis
  proof cases
    case 1
    then show ?thesis by (simp add: separateThousands_def Let_def s_def m_def)
  next
    case 2
    from fill_closed[OF m 2(2), of 0] 2(1) show ?thesis
      by (simp add: separateThousands_def Let_def s_def[symmetric] m_def[symmetric])
  qed
qed

subsection \<open>splitValue on the example inputs\<close>

lemmas fmt_ev = splitValue_def sliceFrom_def Sprintf_f.simps(1) scaled_def roundHalfEven_def
  Let_def digits_lt10 digits_ge10 digit_simps

lemma split_examples:
  "splitValue f10 = Inr (''10'', ''00'')"
  "splitValue f1000 = Inr (''1000'', ''00'')"
  "splitValue f0_999 = Inr (''0'', ''00'')"
  "splitValue fNeg0_999 = Inr (''-0'', ''.00'')"
  "splitValue fNeg1_5 = Inr (''-1'', ''.50'')"
  "splitValue negZero = Inr (''-0'', ''.00'')"
  by (simp_all add: f10_eq f1000_eq f0_999_eq fNeg0_999_eq fNeg1_5_eq negZero_eq fmt_ev)

lemma render_examples:
  "Sprintf_f 2 (snd (Modf f0_999)) = ''1.00''"
  "Sprintf_f 2 (snd (Modf fNeg0_999)) = ''-1.00''"
  "Sprintf_f 2 (snd (Modf negZero)) = ''-0.00''"
  by (simp_all add: f0_999_eq fNeg0_999_eq negZero_eq fmt_ev)

lemma splitValue_total: "\<exists>integer fractional. splitValue val = Inr (integer, fractional)"
proof (cases val)
  case (Finite s m e)
  with splitValue_shape[of s m e] show ?thesis by blast
next
  case (Infinity s)
  then show ?thesis by (simp add: splitValue_def sliceFrom_def)
next
  case NaN
  then show ?thesis by (simp add: splitValue_def sliceFrom_def)
qed

subsection \<open>New, step by step\<close>

lemma New_alt:
  "New table val opts =
     (let options = effective opts
      in seq (assertString (index options ''currency'')) (\<lambda>code.
         let currency = lookupCurrency table code
         in seq (splitValue val) (\<lambda>(integer, fractional).
            seq (assertBool (index options ''with_thousands_separator'')) (\<lambda>wts.
            seq (if wts
                 then seq (assertString (index currency ''thousands_separator''))
                          (\<lambda>sep. separateThousands integer sep)
                 else Inr integer) (\<lambda>result.
            seq (assertBool (index options ''with_cents'')) (\<lambda>wc.
            seq (if wc \<and> index currency ''subunit'' \<noteq> Nil
                 then seq (assertString (index currency ''decimal_mark''))
                          (\<lambda>dm. Inr (result @ dm @ fractional))
                 else Inr result) (\<lambda>result.
            seq (assertBool (index options ''with_symbol'')) (\<lambda>ws.
            seq (if ws then addSymbol result currency options else Inr result) (\<lambda>result.
            seq (assertBool (index options ''with_currency'')) (\<lambda>wcur.
            if wcur then Inr (result @ '' '' @ fmt_s (index currency ''iso_code''))
            else Inr result))))))))))"
  unfolding New_def effective_def Let_def by (rule refl)

lemma New_eval:
  assumes "index (effective opts) ''currency'' = Str code"
    and "index (effective opts) ''with_thousands_separator'' = Bool wts"
    and "index (effective opts) ''with_cents'' = Bool wc"
    and "index (effective opts) ''with_symbol'' = Bool ws"
    and "index (effective opts) ''with_symbol_space'' = Bool wss"
    and "index (effective opts) ''with_currency'' = Bool wcur"
    and "splitValue val = Inr (integer, fractional)"
    and "index (lookupCurrency table code) ''thousands_separator'' = Str sep"
    and "wc \<and> index (lookupCurrency table code) ''subunit'' \<noteq> Nil \<Longrightarrow>
         index (lookupCurrency table code) ''decimal_mark'' = Str dm"
    and "index (lookupCurrency table code) ''symbol_first'' = Bool sf"
    and "separateThousands integer sep = Inr g"
  shows "New table val opts =
     Inr (let currency = lookupCurrency table code;
              body = (if wts then g else integer);
              amount = (if wc \<and> index currency ''subunit'' \<noteq> Nil
                        then body @ dm @ fractional else body);
              space = (if wss then '' '' else []);
              symbol = fmt_s (index currency ''symbol'');
              composed = (if ws then (if sf then symbol @ space @ amount
                                      else amount @ space @ symbol)
                          else amount)
          in if wcur then composed @ '' '' @ fmt_s (index currency ''iso_code'')
             else composed)"
  using assms by (simp add: New_alt Let_def addSymbol_def)

lemma effective_Nil: "effective [] = defaults"
  by (simp add: effective_def)

lemma effective_Cons: "effective (supplied # rest) = override defaults supplied"
  by (simp add: effective_def)

lemma index_override:
  "index (override options supplied) k =
     (case supplied k of None \<Rightarrow> index options k | Some v \<Rightarrow> v)"
  by (simp add: index_def override_def map_add_def split: option.splits)

lemma index_defaults:
  "index defaults ''currency'' = Str ''usd''"
  "index defaults ''with_cents'' = Bool True"
  "index defaults ''with_currency'' = Bool False"
  "index defaults ''with_symbol'' = Bool True"
  "index defaults ''with_symbol_space'' = Bool False"
  "index defaults ''with_thousands_separator'' = Bool True"
  by (simp_all add: index_def defaults_def)

lemma index_usd:
  "index (lookupCurrency currencies ''usd'') ''iso_code'' = Str ''USD''"
  "index (lookupCurrency currencies ''usd'') ''symbol'' = Str ''$''"
  "index (lookupCurrency currencies ''usd'') ''subunit'' = Str ''Cent''"
  "index (lookupCurrency currencies ''usd'') ''symbol_first'' = Bool True"
  "index (lookupCurrency currencies ''usd'') ''thousands_separator'' = Str '',''"
  "index (lookupCurrency currencies ''usd'') ''decimal_mark'' = Str ''.''"
  by (simp_all add: index_def lookupCurrency_def currencies_def usd_def)

lemma index_eur:
  "index (lookupCurrency currencies ''eur'') ''symbol'' = Str euroSign"
  "index (lookupCurrency currencies ''eur'') ''subunit'' = Str ''Cent''"
  "index (lookupCurrency currencies ''eur'') ''symbol_first'' = Bool True"
  "index (lookupCurrency currencies ''eur'') ''thousands_separator'' = Str '',''"
  "index (lookupCurrency currencies ''eur'') ''decimal_mark'' = Str ''.''"
  by (simp_all add: index_def lookupCurrency_def currencies_def eur_def)

lemmas opt_ev = effective_Nil effective_Cons index_override index_defaults index_usd index_eur

lemma New_examples:
  "New currencies f10 [] = Inr ''$10.00''"
  "New currencies f10 [[''currency'' \<mapsto> Str ''eur'']] = Inr (euroSign @ ''10.00'')"
  "New currencies f10 [[''with_cents'' \<mapsto> Bool False]] = Inr ''$10''"
  "New currencies f10 [[''with_currency'' \<mapsto> Bool True]] = Inr ''$10.00 USD''"
  "New currencies f10 [[''with_symbol'' \<mapsto> Bool False]] = Inr ''10.00''"
  "New currencies f10 [[''with_symbol_space'' \<mapsto> Bool True]] = Inr ''$ 10.00''"
  "New currencies f1000 [] = Inr ''$1,000.00''"
  "New currencies f1000 [[''with_thousands_separator'' \<mapsto> Bool False]] = Inr ''$1000.00''"
  "New currencies f0_999 [] = Inr ''$0.00''"
  "New currencies fNeg1_5 [] = Inr ''$-1..50''"
  by (simp_all add: New_alt Let_def addSymbol_def opt_ev split_examples sep_examples)

subsection \<open>Typed options and rows\<close>

lemma isBool_iff: "isBool v \<longleftrightarrow> (\<exists>b. v = Bool b)"
  by (cases v) simp_all

lemma isStr_iff: "isStr v \<longleftrightarrow> (\<exists>s. v = Str s)"
  by (cases v) simp_all

lemma defaults_typed:
  "k \<in> set boolKeys \<Longrightarrow> \<exists>b. index defaults k = Bool b"
  by (auto simp: boolKeys_def index_defaults)

lemma override_typed:
  assumes "validOptions supplied"
  shows "k \<in> set boolKeys \<Longrightarrow> \<exists>b. index (override defaults supplied) k = Bool b"
    and "\<exists>code. index (override defaults supplied) ''currency'' = Str code"
proof -
  show "\<exists>b. index (override defaults supplied) k = Bool b" if k: "k \<in> set boolKeys"
  proof (cases "supplied k")
    case None
    with defaults_typed[OF k] show ?thesis by (simp add: index_override)
  next
    case (Some v)
    from assms k have "case supplied k of None \<Rightarrow> True | Some v \<Rightarrow> isBool v"
      by (simp add: validOptions_def list_all_iff)
    with Some show ?thesis by (simp add: index_override isBool_iff)
  qed
  show "\<exists>code. index (override defaults supplied) ''currency'' = Str code"
  proof (cases "supplied ''currency''")
    case None
    then show ?thesis by (simp add: index_override index_defaults)
  next
    case (Some v)
    from assms have "case supplied ''currency'' of None \<Rightarrow> True | Some v \<Rightarrow> isStr v"
      by (simp add: validOptions_def)
    with Some show ?thesis by (simp add: index_override isStr_iff)
  qed
qed

lemma validOptions_empty: "validOptions Map.empty"
  by (simp add: validOptions_def boolKeys_def)

lemma effective_override: "\<exists>supplied. effective opts = override defaults supplied \<and>
   (list_all validOptions (take 1 opts) \<longrightarrow> validOptions supplied)"
proof (cases opts)
  case Nil
  have "effective [] = override defaults Map.empty"
    by (simp add: effective_Nil override_def)
  with Nil validOptions_empty show ?thesis by blast
next
  case (Cons a list)
  then show ?thesis by (auto simp: effective_Cons)
qed

lemma effective_typed:
  assumes "list_all validOptions (take 1 opts)"
  shows "\<exists>wts wc ws wss wcur.
           index (effective opts) ''with_thousands_separator'' = Bool wts \<and>
           index (effective opts) ''with_cents'' = Bool wc \<and>
           index (effective opts) ''with_symbol'' = Bool ws \<and>
           index (effective opts) ''with_symbol_space'' = Bool wss \<and>
           index (effective opts) ''with_currency'' = Bool wcur"
proof -
  from effective_override[of opts] assms obtain supplied where
    e: "effective opts = override defaults supplied" and v: "validOptions supplied"
    by blast
  have "\<exists>b. index (effective opts) ''with_thousands_separator'' = Bool b"
       "\<exists>b. index (effective opts) ''with_cents'' = Bool b"
       "\<exists>b. index (effective opts) ''with_symbol'' = Bool b"
       "\<exists>b. index (effective opts) ''with_symbol_space'' = Bool b"
       "\<exists>b. index (effective opts) ''with_currency'' = Bool b"
    unfolding e by (rule override_typed(1)[OF v], simp add: boolKeys_def)+
  then show ?thesis by blast
qed

lemma wfCurrency_typed:
  assumes "wfCurrency c"
  shows "\<exists>sep dm sf.
           index c ''thousands_separator'' = Str sep \<and>
           index c ''decimal_mark'' = Str dm \<and>
           index c ''symbol_first'' = Bool sf"
  using assms by (simp add: wfCurrency_def isStr_iff isBool_iff)

lemma lookup_Some: "table code = Some c \<Longrightarrow> lookupCurrency table code = c"
  by (simp add: lookupCurrency_def)

lemma validOptions_examples:
  "validOptions [''with_currency'' \<mapsto> Bool True, ''with_thousands_separator'' \<mapsto> Bool False]"
  "validOptions [''currency'' \<mapsto> Str ''eur'']"
  by (simp_all add: validOptions_def boolKeys_def)

lemma wf_rows: "wfCurrency usd" "wfCurrency eur" "wfCurrency jpy"
  by (simp_all add: wfCurrency_def index_def usd_def eur_def jpy_def)

lemma fMax_eq: "fMax = Finite False 9007199254740991 971"
  by (simp add: fMax_def Float64frombits_def Let_def)

lemma index_jpy:
  "index (lookupCurrency [''jpy'' \<mapsto> jpy] ''jpy'') ''iso_code'' = Str ''JPY''"
  "index (lookupCurrency [''jpy'' \<mapsto> jpy] ''jpy'') ''symbol'' = Str [CHR 0xC2, CHR 0xA5]"
  "index (lookupCurrency [''jpy'' \<mapsto> jpy] ''jpy'') ''subunit'' = Nil"
  "index (lookupCurrency [''jpy'' \<mapsto> jpy] ''jpy'') ''symbol_first'' = Bool True"
  "index (lookupCurrency [''jpy'' \<mapsto> jpy] ''jpy'') ''thousands_separator'' = Str '',''"
  "index (lookupCurrency [''jpy'' \<mapsto> jpy] ''jpy'') ''decimal_mark'' = Str ''.''"
  by (simp_all add: index_def lookupCurrency_def jpy_def)

lemma validOptions_upd:
  "validOptions supplied \<Longrightarrow> validOptions (supplied(''with_currency'' \<mapsto> Bool b))"
  by (simp add: validOptions_def boolKeys_def)

lemma index_flip:
  "index (effective opts) k = v \<Longrightarrow> v \<noteq> Nil \<Longrightarrow> k \<noteq> ''with_cents'' \<Longrightarrow>
   index (effective [(effective opts)(''with_cents'' \<mapsto> w)]) k = v"
proof -
  assume v: "index (effective opts) k = v" "v \<noteq> Nil" and k: "k \<noteq> ''with_cents''"
  from v have "effective opts k = Some v"
    by (auto simp: index_def split: option.splits)
  with k have "((effective opts)(''with_cents'' \<mapsto> w)) k = Some v"
    by simp
  then show ?thesis
    by (simp add: effective_Cons index_override)
qed

lemma index_flip_cents:
  "index (effective [(effective opts)(''with_cents'' \<mapsto> w)]) ''with_cents'' = w"
  by (simp add: effective_Cons index_override)

lemma index_franc:
  "index (lookupCurrency [''xxf'' \<mapsto> franc] ''xxf'') ''iso_code'' = Str ''XXF''"
  "index (lookupCurrency [''xxf'' \<mapsto> franc] ''xxf'') ''symbol'' = Str ''Fr.''"
  "index (lookupCurrency [''xxf'' \<mapsto> franc] ''xxf'') ''subunit'' = Nil"
  "index (lookupCurrency [''xxf'' \<mapsto> franc] ''xxf'') ''symbol_first'' = Bool True"
  "index (lookupCurrency [''xxf'' \<mapsto> franc] ''xxf'') ''thousands_separator'' = Str '',''"
  "index (lookupCurrency [''xxf'' \<mapsto> franc] ''xxf'') ''decimal_mark'' = Str ''.''"
  by (simp_all add: index_def lookupCurrency_def franc_def)

section \<open>The claims\<close>

text \<open>
  C1. The specification asks that \<open>New(0.999)\<close> with default options return \<open>$1.00\<close>: a
  fractional part that rounds up to \<open>1.00\<close> is to carry into the integer part. The code
  formats the two parts independently: the fractional part of \<open>0.999\<close> renders as
  \<open>1.00\<close>, the slice \<open>[2:]\<close> drops the leading \<open>1.\<close>, and the integer part stays \<open>0\<close>.
  \<open>New(0.999)\<close> returns \<open>$0.00\<close>.
\<close>

theorem rounding_carry_is_lost:
  "Sprintf_f 2 (snd (Modf f0_999)) = ''1.00'' \<and>
   splitValue f0_999 = Inr (''0'', ''00'') \<and>
   New currencies f0_999 [] = Inr ''$0.00''"
  by (simp add: render_examples split_examples New_examples)

text \<open>
  C2. The specification asks that separateThousands insert the separator every three
  digits from the right. The loop slices group \<open>i\<close> at byte offset \<open>i\<close> instead of at
  the offset of the group, so the groups overlap: the results are right for \<open>1000\<close> and
  \<open>12\<close>, but \<open>1234567\<close> yields \<open>1,234,345\<close> where the specification's grouping is
  \<open>1,234,567\<close>.
\<close>

theorem separateThousands_overlapping_groups:
  "separateThousands ''1000'' '','' = Inr ''1,000'' \<and>
   separateThousands ''12'' '','' = Inr ''12'' \<and>
   separateThousands ''1234567'' '','' = Inr ''1,234,345'' \<and>
   groupThousands_spec ''1234567'' '','' = ''1,234,567''"
  by (simp add: sep_examples spec_examples)

text \<open>
  C3. Grouping idempotence: stripping the separators of a correctly grouped string and
  grouping again is to give the string back. \<open>123,456\<close> is correctly grouped; stripped
  it is \<open>123456\<close>, which separateThousands turns into \<open>123,234\<close>.
\<close>

theorem regrouping_changes_grouped_string:
  "groupThousands_spec ''123456'' '','' = ''123,456'' \<and>
   stripSeparator ''123,456'' (CHR '','') = ''123456'' \<and>
   separateThousands (stripSeparator ''123,456'' (CHR '','')) '','' = Inr ''123,234''"
  by (simp add: sep_examples spec_examples)

text \<open>
  C4. The claim: for a currency whose row has a null subunit, the string \<open>New\<close> returns
  contains neither the decimal mark of the currency nor fractional digits. \<open>New\<close> does
  not append them, but the string can still show the mark: for a row whose symbol is
  \<open>Fr.\<close> and whose decimal mark is the point, \<open>New(1000)\<close> returns \<open>Fr.1,000\<close>.
\<close>

theorem null_subunit_result_shows_the_mark:
  "index (lookupCurrency [''xxf'' \<mapsto> franc] ''xxf'') ''subunit'' = Nil \<and>
   index (lookupCurrency [''xxf'' \<mapsto> franc] ''xxf'') ''decimal_mark'' = Str ''.'' \<and>
   New [''xxf'' \<mapsto> franc] f1000 [[''currency'' \<mapsto> Str ''xxf'']] = Inr ''Fr.1,000'' \<and>
   Contains ''Fr.1,000'' ''.''"
  by (simp add: index_franc New_alt Let_def addSymbol_def opt_ev split_examples sep_examples)

text \<open>
  C4, amended. For a currency whose row has a null subunit, whatever the value and
  whatever the setting of \<open>with_cents\<close>, \<open>New\<close> appends neither the decimal mark nor
  the fractional digits: the string it returns is assembled from the integer digits
  (grouped with the separator or not), the symbol, the optional space and the optional
  ISO code only, and it is the same string when \<open>with_cents\<close> is set the other way.
\<close>

theorem null_subunit_appends_no_cents:
  assumes "index (effective opts) ''currency'' = Str code"
    and "index (lookupCurrency table code) ''subunit'' = Nil"
    and "index (effective opts) ''with_cents'' = Bool wc"
    and "index (effective opts) ''with_thousands_separator'' = Bool wts"
    and "index (effective opts) ''with_symbol'' = Bool ws"
    and "index (effective opts) ''with_symbol_space'' = Bool wss"
    and "index (effective opts) ''with_currency'' = Bool wcur"
    and "index (lookupCurrency table code) ''thousands_separator'' = Str sep"
    and "index (lookupCurrency table code) ''symbol_first'' = Bool sf"
  shows "\<exists>integer fractional g r.
           splitValue val = Inr (integer, fractional) \<and>
           separateThousands integer sep = Inr g \<and>
           r = (let currency = lookupCurrency table code;
                    body = (if wts then g else integer);
                    space = (if wss then '' '' else []);
                    symbol = fmt_s (index currency ''symbol'');
                    composed = (if ws then (if sf then symbol @ space @ body
                                            else body @ space @ symbol)
                                else body)
                in if wcur then composed @ '' '' @ fmt_s (index currency ''iso_code'')
                   else composed) \<and>
           New table val opts = Inr r \<and>
           New table val [(effective opts)(''with_cents'' \<mapsto> Bool (\<not> wc))] = Inr r"
proof -
  from splitValue_total obtain integer fractional where
    s: "splitValue val = Inr (integer, fractional)"
    by blast
  from separateThousands_total obtain g where
    g: "separateThousands integer sep = Inr g"
    by blast
  define r where
    "r = (let currency = lookupCurrency table code;
              body = (if wts then g else integer);
              space = (if wss then '' '' else []);
              symbol = fmt_s (index currency ''symbol'');
              composed = (if ws then (if sf then symbol @ space @ body
                                      else body @ space @ symbol)
                          else body)
          in if wcur then composed @ '' '' @ fmt_s (index currency ''iso_code'')
             else composed)"
  have d: "b \<and> index (lookupCurrency table code) ''subunit'' \<noteq> Nil \<Longrightarrow>
           index (lookupCurrency table code) ''decimal_mark'' = Str []" for b
    using assms(2) by simp
  let ?flip = "[(effective opts)(''with_cents'' \<mapsto> Bool (\<not> wc))]"
  have f: "index (effective ?flip) ''currency'' = Str code"
          "index (effective ?flip) ''with_thousands_separator'' = Bool wts"
          "index (effective ?flip) ''with_symbol'' = Bool ws"
          "index (effective ?flip) ''with_symbol_space'' = Bool wss"
          "index (effective ?flip) ''with_currency'' = Bool wcur"
    using assms(1,4,5,6,7) by (simp_all add: index_flip)
  have fc: "index (effective ?flip) ''with_cents'' = Bool (\<not> wc)"
    by (rule index_flip_cents)
  from New_eval[OF assms(1) assms(4) assms(3) assms(5) assms(6) assms(7) s assms(8) d assms(9) g]
  have 1: "New table val opts = Inr r"
    by (simp add: Let_def assms(2) r_def)
  from New_eval[OF f(1) f(2) fc f(3) f(4) f(5) s assms(8) d assms(9) g]
  have 2: "New table val ?flip = Inr r"
    by (simp add: Let_def assms(2) r_def)
  from s g r_def 1 2 show ?thesis by blast
qed

theorem null_subunit_appends_no_cents_witness:
  "New [''jpy'' \<mapsto> jpy] f1000 [[''currency'' \<mapsto> Str ''jpy'']]
     = Inr ([CHR 0xC2, CHR 0xA5] @ ''1,000'') \<and>
   New [''jpy'' \<mapsto> jpy] f1000
     [(effective [[''currency'' \<mapsto> Str ''jpy'']])(''with_cents'' \<mapsto> Bool (\<not> True))]
     = Inr ([CHR 0xC2, CHR 0xA5] @ ''1,000'')"
proof -
  let ?opts = "[[''currency'' \<mapsto> Str ''jpy'']]"
  have a: "index (effective ?opts) ''currency'' = Str ''jpy''"
          "index (effective ?opts) ''with_cents'' = Bool True"
          "index (effective ?opts) ''with_thousands_separator'' = Bool True"
          "index (effective ?opts) ''with_symbol'' = Bool True"
          "index (effective ?opts) ''with_symbol_space'' = Bool False"
          "index (effective ?opts) ''with_currency'' = Bool False"
    by (simp_all add: opt_ev)
  from null_subunit_appends_no_cents[of ?opts "''jpy''" "[''jpy'' \<mapsto> jpy]" True True True False False
        "'',''" True f1000,
        OF a(1) index_jpy(3) a(2) a(3) a(4) a(5) a(6) index_jpy(5) index_jpy(4)]
  show ?thesis
    by (auto simp: split_examples sep_examples index_jpy Let_def)
qed

text \<open>
  C5. Supplied options override the defaults key by key, every key that is not supplied
  keeps its default, and all six options have a default, so a call without options is
  fully specified. \<open>New(10)\<close> returns \<open>$10.00\<close>, and with the currency \<open>eur\<close> the euro
  sign followed by \<open>10.00\<close>.
\<close>

theorem options_override_defaults_by_key:
  "effective [] = defaults \<and>
   (\<forall>k. effective (supplied # rest) k =
          (case supplied k of None \<Rightarrow> defaults k | Some v \<Rightarrow> Some v)) \<and>
   dom defaults = {''currency'', ''with_cents'', ''with_currency'', ''with_symbol'',
                   ''with_symbol_space'', ''with_thousands_separator''} \<and>
   New currencies f10 [] = Inr ''$10.00'' \<and>
   New currencies f10 [[''currency'' \<mapsto> Str ''eur'']] = Inr (euroSign @ ''10.00'')"
proof -
  have "\<forall>k. effective (supplied # rest) k =
          (case supplied k of None \<Rightarrow> defaults k | Some v \<Rightarrow> Some v)"
    by (simp add: effective_Cons override_def map_add_def)
  moreover have "dom defaults = {''currency'', ''with_cents'', ''with_currency'',
      ''with_symbol'', ''with_symbol_space'', ''with_thousands_separator''}"
    unfolding defaults_def by (simp add: insert_commute)
  ultimately show ?thesis
    by (simp add: effective_Nil New_examples)
qed

text \<open>
  C6. For every finite value, every valid option bag and every currency code whose row
  is well formed, \<open>New\<close> returns a string: no type assertion and no slice expression
  panics. Only the first supplied bag is read.
\<close>

theorem New_returns_a_string:
  assumes "isFinite val"
    and "list_all validOptions (take 1 opts)"
    and "index (effective opts) ''currency'' = Str code"
    and "table code = Some c"
    and "wfCurrency c"
  shows "\<exists>r. New table val opts = Inr r"
proof -
  from effective_typed[OF assms(2)] obtain wts wc ws wss wcur where
    o: "index (effective opts) ''with_thousands_separator'' = Bool wts"
       "index (effective opts) ''with_cents'' = Bool wc"
       "index (effective opts) ''with_symbol'' = Bool ws"
       "index (effective opts) ''with_symbol_space'' = Bool wss"
       "index (effective opts) ''with_currency'' = Bool wcur"
    by blast
  have l: "lookupCurrency table code = c"
    using assms(4) by (rule lookup_Some)
  from wfCurrency_typed[OF assms(5)] obtain sep dm sf where
    c: "index (lookupCurrency table code) ''thousands_separator'' = Str sep"
       "index (lookupCurrency table code) ''decimal_mark'' = Str dm"
       "index (lookupCurrency table code) ''symbol_first'' = Bool sf"
    unfolding l by blast
  from splitValue_total obtain integer fractional where
    s: "splitValue val = Inr (integer, fractional)"
    by blast
  from separateThousands_total obtain g where
    g: "separateThousands integer sep = Inr g"
    by blast
  from New_eval[OF assms(3) o s c(1) c(2) c(3) g] show ?thesis
    by blast
qed

theorem New_returns_a_string_witness:
  "isFinite fMax \<and>
   list_all validOptions
     (take 1 [[''with_currency'' \<mapsto> Bool True, ''with_thousands_separator'' \<mapsto> Bool False]]) \<and>
   index (effective [[''with_currency'' \<mapsto> Bool True, ''with_thousands_separator'' \<mapsto> Bool False]])
     ''currency'' = Str ''usd'' \<and>
   currencies ''usd'' = Some usd \<and> wfCurrency usd \<and>
   (\<exists>r. New currencies fMax
          [[''with_currency'' \<mapsto> Bool True, ''with_thousands_separator'' \<mapsto> Bool False]] = Inr r)"
proof -
  have 1: "isFinite fMax" by (simp add: fMax_eq)
  have 2: "list_all validOptions
     (take 1 [[''with_currency'' \<mapsto> Bool True, ''with_thousands_separator'' \<mapsto> Bool False]])"
    by (simp add: validOptions_examples)
  have 3: "index (effective [[''with_currency'' \<mapsto> Bool True, ''with_thousands_separator'' \<mapsto> Bool False]])
     ''currency'' = Str ''usd''"
    by (simp add: opt_ev)
  have 4: "currencies ''usd'' = Some usd" by (simp add: currencies_def)
  from New_returns_a_string[of fMax _ "''usd''" currencies usd, OF 1 2 3 4 wf_rows(1)]
    1 2 3 4 wf_rows(1) show ?thesis
    by blast
qed

text \<open>
  C7. With \<open>with_symbol_space\<close> true, \<open>addSymbol\<close> puts exactly one space between the
  symbol and the amount, on whichever side the symbol goes; \<open>New(10)\<close> with that option
  returns \<open>$ 10.00\<close>.
\<close>

theorem symbol_space_on_either_side:
  assumes "index options ''with_symbol_space'' = Bool True"
    and "index currency ''symbol'' = Str symbol"
    and "index currency ''symbol_first'' = Bool sf"
  shows "addSymbol result currency options =
           Inr (if sf then symbol @ '' '' @ result else result @ '' '' @ symbol) \<and>
         New currencies f10 [[''with_symbol_space'' \<mapsto> Bool True]] = Inr ''$ 10.00''"
  using assms by (simp add: addSymbol_def New_examples)

theorem symbol_space_on_either_side_witness:
  "index [''with_symbol_space'' \<mapsto> Bool True] ''with_symbol_space'' = Bool True \<and>
   index [''symbol'' \<mapsto> Str ''kr'', ''symbol_first'' \<mapsto> Bool False] ''symbol'' = Str ''kr'' \<and>
   index [''symbol'' \<mapsto> Str ''kr'', ''symbol_first'' \<mapsto> Bool False] ''symbol_first'' = Bool False \<and>
   addSymbol ''10.00'' [''symbol'' \<mapsto> Str ''kr'', ''symbol_first'' \<mapsto> Bool False]
     [''with_symbol_space'' \<mapsto> Bool True] = Inr ''10.00 kr''"
proof -
  have 1: "index [''with_symbol_space'' \<mapsto> Bool True] ''with_symbol_space'' = Bool True"
    by (simp add: index_def)
  have 2: "index [''symbol'' \<mapsto> Str ''kr'', ''symbol_first'' \<mapsto> Bool False] ''symbol'' = Str ''kr''"
    by (simp add: index_def)
  have 3: "index [''symbol'' \<mapsto> Str ''kr'', ''symbol_first'' \<mapsto> Bool False] ''symbol_first'' = Bool False"
    by (simp add: index_def)
  from symbol_space_on_either_side[OF 1 2 3, of "''10.00''"] 1 2 3 show ?thesis
    by simp
qed

text \<open>
  C8. With \<open>with_currency\<close> true, \<open>New\<close> returns the string it returns with the option
  false, symbol included, followed by one space and the ISO code of the currency;
  \<open>New(10)\<close> with that option returns \<open>$10.00 USD\<close>.
\<close>

theorem with_currency_appends_iso_code:
  assumes "isFinite val"
    and "validOptions supplied"
    and "index (override defaults supplied) ''currency'' = Str code"
    and "table code = Some c"
    and "wfCurrency c"
    and "index c ''iso_code'' = Str isoCode"
  shows "(\<exists>r. New table val (supplied(''with_currency'' \<mapsto> Bool False) # rest) = Inr r \<and>
              New table val (supplied(''with_currency'' \<mapsto> Bool True) # rest) =
                Inr (r @ '' '' @ isoCode)) \<and>
         New currencies f10 [[''with_currency'' \<mapsto> Bool True]] = Inr ''$10.00 USD''"
proof -
  let ?o = "\<lambda>b. supplied(''with_currency'' \<mapsto> Bool b) # rest"
  have l: "lookupCurrency table code = c"
    using assms(4) by (rule lookup_Some)
  have v: "list_all validOptions (take 1 (?o b))" for b
    using validOptions_upd[OF assms(2)] by simp
  have cur: "index (effective (?o b)) ''currency'' = Str code" for b
    using assms(3) by (simp add: effective_Cons index_override)
  have wcur: "index (effective (?o b)) ''with_currency'' = Bool b" for b
    by (simp add: effective_Cons index_override)
  have same: "index (effective (?o True)) k = index (effective (?o False)) k"
    if "k \<noteq> ''with_currency''" for k
    using that by (simp add: effective_Cons index_override)
  from effective_typed[OF v[of False]] obtain wts wc ws wss where
    o: "index (effective (?o False)) ''with_thousands_separator'' = Bool wts"
       "index (effective (?o False)) ''with_cents'' = Bool wc"
       "index (effective (?o False)) ''with_symbol'' = Bool ws"
       "index (effective (?o False)) ''with_symbol_space'' = Bool wss"
    by blast
  have o': "index (effective (?o True)) ''with_thousands_separator'' = Bool wts"
       "index (effective (?o True)) ''with_cents'' = Bool wc"
       "index (effective (?o True)) ''with_symbol'' = Bool ws"
       "index (effective (?o True)) ''with_symbol_space'' = Bool wss"
    using o by (simp_all add: same)
  from wfCurrency_typed[OF assms(5)] obtain sep dm sf where
    c: "index (lookupCurrency table code) ''thousands_separator'' = Str sep"
       "index (lookupCurrency table code) ''decimal_mark'' = Str dm"
       "index (lookupCurrency table code) ''symbol_first'' = Bool sf"
    unfolding l by blast
  from splitValue_total obtain integer fractional where
    s: "splitValue val = Inr (integer, fractional)"
    by blast
  from separateThousands_total obtain g where
    g: "separateThousands integer sep = Inr g"
    by blast
  note F = New_eval[OF cur o wcur s c(1) c(2) c(3) g]
  note T = New_eval[OF cur o' wcur s c(1) c(2) c(3) g]
  have "\<exists>r. New table val (?o False) = Inr r \<and> New table val (?o True) = Inr (r @ '' '' @ isoCode)"
    unfolding F T using assms(6) by (simp add: Let_def l)
  then show ?thesis by (simp add: New_examples)
qed

theorem with_currency_appends_iso_code_witness:
  "New currencies f1000 [[''with_symbol_space'' \<mapsto> Bool True, ''with_currency'' \<mapsto> Bool True]] =
     Inr ''$ 1,000.00 USD''"
proof -
  have 1: "isFinite f1000" by (simp add: f1000_eq)
  have 2: "validOptions [''with_symbol_space'' \<mapsto> Bool True]"
    by (simp add: validOptions_def boolKeys_def)
  have 3: "index (override defaults [''with_symbol_space'' \<mapsto> Bool True]) ''currency'' = Str ''usd''"
    by (simp add: opt_ev)
  have 4: "currencies ''usd'' = Some usd" by (simp add: currencies_def)
  have 5: "index usd ''iso_code'' = Str ''USD''" by (simp add: index_def usd_def)
  have 6: "New currencies f1000 [[''with_symbol_space'' \<mapsto> Bool True, ''with_currency'' \<mapsto> Bool False]] =
     Inr ''$ 1,000.00''"
    by (simp add: New_alt Let_def addSymbol_def opt_ev split_examples sep_examples)
  from with_currency_appends_iso_code[of f1000 _ "''usd''" currencies usd "''USD''" "[]",
      OF 1 2 3 4 wf_rows(1) 5] 6
  show ?thesis by simp
qed

text \<open>
  C9. The claim: for every non-negative finite value the fractional string of
  \<open>splitValue\<close> is exactly two decimal digits. Negative zero compares as \<open>>= 0\<close>, yet
  its fractional part renders as \<open>-0.00\<close> and the fractional string is \<open>.00\<close>.
\<close>

theorem negative_zero_fractional:
  "is_float64 negZero \<and> isFinite negZero \<and> geZero negZero \<and>
   splitValue negZero = Inr (''-0'', ''.00'') \<and>
   New currencies negZero [] = Inr ''$-0..00''"
proof -
  have "is_float64 negZero" unfolding negZero_def by (rule is_float64_frombits)
  moreover have "isFinite negZero" "geZero negZero" by (simp_all add: negZero_eq)
  moreover have "New currencies negZero [] = Inr ''$-0..00''"
    by (simp add: New_alt Let_def addSymbol_def opt_ev split_examples sep_examples)
  ultimately show ?thesis by (simp add: split_examples)
qed

text \<open>
  C9, amended. For every finite value whose sign bit is clear (the positive values and
  positive zero), the fractional string of \<open>splitValue\<close> is exactly two decimal digits:
  the two-decimal rendering of the fractional part without its leading \<open>0.\<close> or \<open>1.\<close>.
\<close>

theorem fractional_is_two_digits:
  assumes "isFinite val" and "\<not> Signbit val"
  shows "\<exists>integer fractional d.
           splitValue val = Inr (integer, fractional) \<and>
           length fractional = 2 \<and> list_all isDigit fractional \<and>
           d \<le> 1 \<and> Sprintf_f 2 (snd (Modf val)) = [digit d, CHR ''.''] @ fractional"
proof (cases val)
  case (Finite s m e)
  with assms have s: "\<not> s" by simp
  from splitValue_shape[of s m e] obtain ip d a b where
    "d \<le> 1" "a < 10" "b < 10"
    "Sprintf_f 2 (snd (Modf (Finite s m e))) = [digit d, CHR ''.'', digit a, digit b]"
    "splitValue (Finite s m e) = Inr (digits ip, [digit a, digit b])"
    using s by auto
  with Finite have
    "splitValue val = Inr (digits ip, [digit a, digit b]) \<and>
     length [digit a, digit b] = 2 \<and> list_all isDigit [digit a, digit b] \<and>
     d \<le> 1 \<and> Sprintf_f 2 (snd (Modf val)) = [digit d, CHR ''.''] @ [digit a, digit b]"
    by (simp add: isDigit_digit)
  then show ?thesis by blast
next
  case (Infinity s)
  with assms show ?thesis by simp
next
  case NaN
  with assms show ?thesis by simp
qed

theorem fractional_is_two_digits_witness:
  "isFinite f10 \<and> \<not> Signbit f10 \<and>
   (\<exists>integer fractional d.
           splitValue f10 = Inr (integer, fractional) \<and>
           length fractional = 2 \<and> list_all isDigit fractional \<and>
           d \<le> 1 \<and> Sprintf_f 2 (snd (Modf f10)) = [digit d, CHR ''.''] @ fractional)"
proof -
  have 1: "isFinite f10" by (simp add: f10_eq)
  have 2: "\<not> Signbit f10" by (simp add: f10_eq)
  from fractional_is_two_digits[OF 1 2] 1 2 show ?thesis by blast
qed

text \<open>
  C10. The claim gives as the reason for the three-character fractional string of a
  negative value that the rendering of its fractional part begins with \<open>-0.\<close>. For
  \<open>-0.999\<close> the fractional part rounds to \<open>-1.00\<close>: the rendering begins with \<open>-1.\<close>.
\<close>

theorem negative_rendering_may_begin_with_one:
  "is_float64 fNeg0_999 \<and> isFinite fNeg0_999 \<and> ltZero fNeg0_999 \<and> \<not> isIntegral fNeg0_999 \<and>
   Sprintf_f 2 (snd (Modf fNeg0_999)) = ''-1.00'' \<and>
   splitValue fNeg0_999 = Inr (''-0'', ''.00'')"
proof -
  have "is_float64 fNeg0_999" unfolding fNeg0_999_def by (rule is_float64_frombits)
  moreover have "isFinite fNeg0_999" "ltZero fNeg0_999" "\<not> isIntegral fNeg0_999"
    by (simp_all add: fNeg0_999_eq)
  ultimately show ?thesis by (simp add: render_examples split_examples)
qed

text \<open>
  C10, amended. For every negative finite value that is not a whole number, the
  two-decimal rendering of the fractional part is a minus sign, one digit (\<open>0\<close>, or \<open>1\<close>
  when the fraction rounds up), a point and two digits; \<open>splitValue\<close> drops the first two
  characters, so the fractional string has three characters and begins with the point;
  with default options \<open>New\<close> returns a string in which the decimal mark is followed
  at once by that point.
\<close>

theorem negative_fractional_keeps_the_point:
  assumes "isFinite val" and "ltZero val" and "\<not> isIntegral val"
  shows "\<exists>integer d a b g.
           d \<le> 1 \<and> a < 10 \<and> b < 10 \<and>
           Sprintf_f 2 (snd (Modf val)) = [CHR ''-'', digit d, CHR ''.'', digit a, digit b] \<and>
           splitValue val = Inr (integer, [CHR ''.'', digit a, digit b]) \<and>
           separateThousands integer '','' = Inr g \<and>
           New currencies val [] = Inr (''$'' @ g @ ''.'' @ [CHR ''.'', digit a, digit b])"
proof (cases val)
  case (Finite s m e)
  with assms have s: "s" by simp
  from splitValue_shape[of s m e] obtain ip d a b where
    dab: "d \<le> 1" "a < 10" "b < 10" and
    r: "Sprintf_f 2 (snd (Modf (Finite s m e))) = [CHR ''-'', digit d, CHR ''.'', digit a, digit b]" and
    sp: "splitValue (Finite s m e) = Inr (''-'' @ digits ip, [CHR ''.'', digit a, digit b])"
    using s by auto
  from separateThousands_total obtain g where
    g: "separateThousands (''-'' @ digits ip) '','' = Inr g"
    by blast
  have "New currencies (Finite s m e) [] = Inr (''$'' @ g @ ''.'' @ [CHR ''.'', digit a, digit b])"
    using sp g by (simp add: New_alt Let_def addSymbol_def opt_ev)
  with dab r sp g Finite show ?thesis by blast
next
  case (Infinity s)
  with assms show ?thesis by simp
next
  case NaN
  with assms show ?thesis by simp
qed

theorem negative_fractional_keeps_the_point_witness:
  "isFinite fNeg1_5 \<and> ltZero fNeg1_5 \<and> \<not> isIntegral fNeg1_5 \<and>
   New currencies fNeg1_5 [] = Inr ''$-1..50''"
proof -
  have 1: "isFinite fNeg1_5" by (simp add: fNeg1_5_eq)
  have 2: "ltZero fNeg1_5" by (simp add: fNeg1_5_eq)
  have 3: "\<not> isIntegral fNeg1_5" by (simp add: fNeg1_5_eq)
  from negative_fractional_keeps_the_point[OF 1 2 3] 1 2 3 show ?thesis
    by (auto simp: split_examples sep_examples)
qed

end
